theory Spec2Isabelle
  imports Complex_Main "HOL-Library.Word"
begin

section \<open>JavaScript strings\<close>

text \<open>
  A JavaScript string is a sequence of 16-bit UTF-16 code units; \<open>length\<close>,
  \<open>split\<close>, \<open>trim\<close>, \<open>startsWith\<close>, \<open>substring\<close> and the regular
  expressions of the source (none has the \<open>u\<close> flag) all work on code units.
  \<open>js\<close> embeds an ASCII literal of the source.
\<close>

type_synonym code_unit = "16 word"
type_synonym jsstring = "code_unit list"

definition js :: "string \<Rightarrow> jsstring" where
  "js s = map (\<lambda>c. of_nat (of_char c)) s"

text \<open>
  ECMAScript \<open>WhiteSpace\<close> (TAB, VT, FF, SP, NBSP, ZWNBSP and the category Zs) and
  \<open>LineTerminator\<close> (LF, CR, LS, PS). The regular expression escape \<open>\s\<close> and
  \<open>String.prototype.trim\<close> both use the union of the two.
\<close>

definition isWhiteSpace :: "code_unit \<Rightarrow> bool" where
  "isWhiteSpace c \<longleftrightarrow>
     c \<in> set [0x09, 0x0B, 0x0C, 0x20, 0xA0, 0x1680, 0x202F, 0x205F, 0x3000, 0xFEFF]
     \<or> (0x2000 \<le> c \<and> c \<le> 0x200A)"

definition isLineTerminator :: "code_unit \<Rightarrow> bool" where
  "isLineTerminator c \<longleftrightarrow> c \<in> set [0x0A, 0x0D, 0x2028, 0x2029]"

definition isSpace :: "code_unit \<Rightarrow> bool" where
  "isSpace c \<longleftrightarrow> isWhiteSpace c \<or> isLineTerminator c"

text \<open>\<open>s.trim()\<close>: white space and line terminators removed from both ends.\<close>

definition trim :: "jsstring \<Rightarrow> jsstring" where
  "trim s = rev (dropWhile isSpace (rev (dropWhile isSpace s)))"

text \<open>
  \<open>s.split(sep)\<close> for a separator of one code unit: the pieces between the
  separators, so that the empty string gives one empty piece. The loop keeps the
  piece being read in \<open>cur\<close>.
\<close>

fun split_from :: "code_unit \<Rightarrow> jsstring \<Rightarrow> jsstring \<Rightarrow> jsstring list" where
  "split_from sep cur [] = [cur]"
| "split_from sep cur (c # cs) =
     (if c = sep then cur # split_from sep [] cs else split_from sep (cur @ [c]) cs)"

definition split :: "code_unit \<Rightarrow> jsstring \<Rightarrow> jsstring list" where
  "split sep s = split_from sep [] s"

text \<open>\<open>pieces.join(sep)\<close> on an array of strings.\<close>

fun join :: "jsstring \<Rightarrow> jsstring list \<Rightarrow> jsstring" where
  "join sep [] = []"
| "join sep [x] = x"
| "join sep (x # y # ys) = x @ sep @ join sep (y # ys)"

text \<open>\<open>s.startsWith(c)\<close> for a one-unit string, and \<open>s.substring(1)\<close>.\<close>

definition startsWith :: "jsstring \<Rightarrow> code_unit \<Rightarrow> bool" where
  "startsWith s c = (case s of [] \<Rightarrow> False | x # _ \<Rightarrow> x = c)"

definition substring1 :: "jsstring \<Rightarrow> jsstring" where
  "substring1 s = drop 1 s"

text \<open>
  \<open>s.toUpperCase()\<close>. On a string of ASCII code units the result maps \<open>a\<close>..\<open>z\<close>
  to \<open>A\<close>..\<open>Z\<close> and keeps every other unit. On any other string the result comes
  from the engine's Unicode case tables, which are no part of the repository: that
  part is the parameter \<open>up\<close>.
\<close>

definition asciiUpper :: "code_unit \<Rightarrow> code_unit" where
  "asciiUpper c = (if 0x61 \<le> c \<and> c \<le> 0x7A then c - 0x20 else c)"

definition toUpperCase :: "(jsstring \<Rightarrow> jsstring) \<Rightarrow> jsstring \<Rightarrow> jsstring" where
  "toUpperCase up s = (if list_all (\<lambda>c. c < 0x80) s then map asciiUpper s else up s)"

section \<open>Sequence utilities (src/utils/index.js)\<close>

text \<open>
  \<^verbatim>\<open>
  export const validateDNASequence = (sequence) => {
    const validChars = /^[ATGCN\s\n\r]+$/i;
    return validChars.test(sequence);
  };
  \<close>
  With the \<open>i\<close> flag and no \<open>u\<close> flag the class \<open>[ATGCN]\<close> matches the ten
  letters \<open>ATGCNatgcn\<close>; \<open>+\<close> between the anchors asks for at least one unit.
\<close>

definition isDNALetter :: "code_unit \<Rightarrow> bool" where
  "isDNALetter c \<longleftrightarrow> c \<in> set (js ''ATGCNatgcn'')"

definition validChars :: "code_unit \<Rightarrow> bool" where
  "validChars c \<longleftrightarrow> isDNALetter c \<or> isSpace c"

definition validateDNASequence :: "jsstring \<Rightarrow> bool" where
  "validateDNASequence sequence \<longleftrightarrow> sequence \<noteq> [] \<and> list_all validChars sequence"

text \<open>
  \<^verbatim>\<open>
  export const cleanDNASequence = (sequence) => {
    return sequence.replace(/[\s\n\r]/g, '').toUpperCase();
  };
  \<close>
\<close>

definition cleanDNASequence :: "(jsstring \<Rightarrow> jsstring) \<Rightarrow> jsstring \<Rightarrow> jsstring" where
  "cleanDNASequence up sequence = toUpperCase up (filter (\<lambda>c. \<not> isSpace c) sequence)"

text \<open>
  \<^verbatim>\<open>
  export const createFastaFromSequence = (sequence, id = 'User_Sequence') => {
    const cleanSeq = cleanDNASequence(sequence);
    return `>${id}\n${cleanSeq}`;
  };
  \<close>
  The optional argument is \<open>None\<close> when the caller leaves it out.
\<close>

definition createFastaFromSequence ::
  "(jsstring \<Rightarrow> jsstring) \<Rightarrow> jsstring \<Rightarrow> jsstring option \<Rightarrow> jsstring" where
  "createFastaFromSequence up sequence id_opt =
     (let ident = (case id_opt of None \<Rightarrow> js ''User_Sequence'' | Some i \<Rightarrow> i);
          cleanSeq = cleanDNASequence up sequence
      in js ''>'' @ ident @ [0x0A] @ cleanSeq)"

text \<open>
  \<^verbatim>\<open>
  export const parseFastaContent = (content) => {
    const sequences = [];
    const lines = content.split('\n');
    let currentSequence = { id: '', sequence: '' };
    for (let line of lines) {
      line = line.trim();
      if (line.startsWith('>')) {
        if (currentSequence.id && currentSequence.sequence) {
          sequences.push(currentSequence);
        }
        currentSequence = { id: line.substring(1), sequence: '' };
      } else if (line) {
        currentSequence.sequence += line;
      }
    }
    if (currentSequence.id && currentSequence.sequence) {
      sequences.push(currentSequence);
    }
    return sequences;
  };
  \<close>
  A string is truthy when it is not empty. The state of the loop is the pair of
  \<open>sequences\<close> and \<open>currentSequence\<close>; a pushed object is never written again,
  since \<open>currentSequence\<close> is bound to a fresh object right after each push.
\<close>

record sequence_record =
  id' :: jsstring
  sequence :: jsstring

definition push_if_complete :: "sequence_record list \<Rightarrow> sequence_record \<Rightarrow> sequence_record list" where
  "push_if_complete sequences currentSequence =
     (if id' currentSequence \<noteq> [] \<and> sequence currentSequence \<noteq> []
      then sequences @ [currentSequence] else sequences)"

definition fasta_line ::
  "sequence_record list \<times> sequence_record \<Rightarrow> jsstring \<Rightarrow> sequence_record list \<times> sequence_record" where
  "fasta_line st line0 =
     (let sequences = fst st; currentSequence = snd st; line = trim line0
      in if startsWith line 0x3E
         then (push_if_complete sequences currentSequence,
               \<lparr>id' = substring1 line, sequence = []\<rparr>)
         else if line \<noteq> []
         then (sequences, currentSequence\<lparr>sequence := sequence currentSequence @ line\<rparr>)
         else (sequences, currentSequence))"

definition fasta_lines :: "jsstring list \<Rightarrow> sequence_record list" where
  "fasta_lines lines =
     (let st = foldl fasta_line ([], \<lparr>id' = [], sequence = []\<rparr>) lines
      in push_if_complete (fst st) (snd st))"

definition parseFastaContent :: "jsstring \<Rightarrow> sequence_record list" where
  "parseFastaContent content = fasta_lines (split 0x0A content)"

text \<open>
  The test of the loop for a header line, and the test of the two \<open>if\<close>s that guard
  \<open>sequences.push\<close>.
\<close>

definition isHeader :: "jsstring \<Rightarrow> bool" where
  "isHeader line0 = startsWith (trim line0) 0x3E"

definition complete :: "sequence_record \<Rightarrow> bool" where
  "complete r \<longleftrightarrow> id' r \<noteq> [] \<and> sequence r \<noteq> []"

definition initial :: "sequence_record" where
  "initial = \<lparr>id' = [], sequence = []\<rparr>"

definition finish :: "sequence_record list \<times> sequence_record \<Rightarrow> sequence_record list" where
  "finish st = push_if_complete (fst st) (snd st)"

definition headless :: "sequence_record list \<times> sequence_record \<Rightarrow> bool" where
  "headless st \<longleftrightarrow> fst st = [] \<and> id' (snd st) = []"

section \<open>JSON values and the browser\<close>

text \<open>
  A number of the source is an IEEE double that came out of \<open>JSON.parse\<close>. Every
  finite double is a rational, and \<open>-0\<close> is falsy like \<open>0\<close>, so a number is a
  \<open>rat\<close>; the floating-point operations themselves (\<open>*\<close>, \<open>toFixed\<close>, the
  conversion to a string) belong to the engine and are parameters.
\<close>

type_synonym number = rat

record number_ops =
  fmul :: "number \<Rightarrow> number \<Rightarrow> number"
  toFixed :: "number \<Rightarrow> nat \<Rightarrow> jsstring"
  numToString :: "number \<Rightarrow> jsstring"

datatype json =
    JNull
  | JBool bool
  | JNum number
  | JStr jsstring
  | JArr "json list"
  | JObj "(jsstring \<times> json) list"

text \<open>Truthiness of a value, and \<open>v.key\<close> (\<open>None\<close> is \<open>undefined\<close>).\<close>

fun truthy :: "json \<Rightarrow> bool" where
  "truthy JNull = False"
| "truthy (JBool b) = b"
| "truthy (JNum n) = (n \<noteq> 0)"
| "truthy (JStr s) = (s \<noteq> [])"
| "truthy (JArr _) = True"
| "truthy (JObj _) = True"

fun get_prop :: "json \<Rightarrow> jsstring \<Rightarrow> json option" where
  "get_prop (JObj kvs) key = map_of kvs key"
| "get_prop _ key = None"

datatype js_error = SyntaxError | TypeError | QuotaExceededError

text \<open>
  \<open>localStorage\<close>: \<open>getItem\<close> gives \<open>null\<close> (\<open>None\<close>) for a key that is not
  stored. \<open>setItem\<close> raises when the quota is exceeded and then leaves the store as
  it was; whether a store fits is the browser's decision, the parameter \<open>fits\<close>.
\<close>

type_synonym storage = "jsstring \<rightharpoonup> jsstring"

definition getItem :: "storage \<Rightarrow> jsstring \<Rightarrow> jsstring option" where
  "getItem ls key = ls key"

definition setItem :: "(storage \<Rightarrow> bool) \<Rightarrow> jsstring \<Rightarrow> jsstring \<Rightarrow> storage \<Rightarrow> js_error + storage" where
  "setItem fits key v ls = (if fits (ls(key \<mapsto> v)) then Inr (ls(key \<mapsto> v)) else Inl QuotaExceededError)"

text \<open>
  \<^verbatim>\<open>
  get: (key) => {
    try {
      const item = localStorage.getItem(key);
      return item ? JSON.parse(item) : null;
    } catch (error) {
      console.error('Error reading from localStorage:', error);
      return null;
    }
  },
  \<close>
  \<open>JSON.parse\<close> is the parameter \<open>parse\<close>; \<open>None\<close> is its \<open>SyntaxError\<close>.
\<close>

definition storage_get :: "(jsstring \<Rightarrow> json option) \<Rightarrow> storage \<Rightarrow> jsstring \<Rightarrow> json" where
  "storage_get parse ls key =
     (case getItem ls key of
        None \<Rightarrow> JNull
      | Some item \<Rightarrow>
          if item \<noteq> [] then (case parse item of Some v \<Rightarrow> v | None \<Rightarrow> JNull) else JNull)"

text \<open>
  What the three pages share: the store, \<open>window.location.hash\<close>, the timers set
  with \<open>setTimeout\<close>, the requests sent with \<open>fetch\<close>, and the notification state
  each page keeps.
  \<^verbatim>\<open>
  const showNotification = (message, type = 'info') => {
    setNotification({ message, type });
    setTimeout(() => setNotification(null), 5000);
  };
  \<close>
\<close>

datatype timer_action = ClearNotification | SetHash jsstring

record notice =
  message :: jsstring
  ntype :: jsstring

record request =
  url :: jsstring
  file_name :: "json option"
  file_text :: jsstring

record page =
  localStorage :: storage
  location_hash :: jsstring
  timers :: "(nat \<times> timer_action) list"
  requests :: "request list"
  notification :: "notice option"

definition showNotification :: "jsstring \<Rightarrow> jsstring \<Rightarrow> 'a page_scheme \<Rightarrow> 'a page_scheme" where
  "showNotification msg ty st =
     st\<lparr>notification := Some \<lparr>message = msg, ntype = ty\<rparr>,
        timers := timers st @ [(5000, ClearNotification)]\<rparr>"

section \<open>Results page (pages/Results.js)\<close>

text \<open>
  \<^verbatim>\<open>
  const exportCSV = () => {
    if (!results || !results.detailed_results) return;
    const csvHeaders = ['Sequence_ID', 'Prediction', 'Confidence', 'Length',
                        'Viral_Probability', 'NonViral_Probability'];
    const csvRows = results.detailed_results.map(result => [
      result.sequence_id,
      result.prediction,
      (result.probability * 100).toFixed(2),
      result.sequence_length,
      result.raw_probabilities?.viral ? (result.raw_probabilities.viral * 100).toFixed(2) : 'N/A',
      result.raw_probabilities?.non_viral ? (result.raw_probabilities.non_viral * 100).toFixed(2) : 'N/A'
    ]);
    const csvContent = [csvHeaders, ...csvRows].map(row => row.join(',')).join('\n');
    ...
  };
  \<close>
  The fields have the types of the service's response: identifiers and labels are
  strings, probabilities and lengths are numbers, \<open>raw_probabilities\<close> and its two
  entries may be missing (\<open>None\<close>). The result is \<open>csvContent\<close>, or \<open>None\<close> on
  the early return. The test of \<open>?:\<close> on a number is its truthiness: a number is
  falsy when it is zero.
\<close>

record raw_probs =
  viral :: "number option"
  non_viral :: "number option"

record detailed_result =
  sequence_id :: jsstring
  prediction :: jsstring
  probability :: number
  sequence_length :: number
  raw_probabilities :: "raw_probs option"

record prediction_results =
  detailed_results :: "detailed_result list option"

definition csvHeaders :: "jsstring list" where
  "csvHeaders = [js ''Sequence_ID'', js ''Prediction'', js ''Confidence'', js ''Length'',
                 js ''Viral_Probability'', js ''NonViral_Probability'']"

definition percentOrNA :: "number_ops \<Rightarrow> number option \<Rightarrow> jsstring" where
  "percentOrNA N p =
     (case p of
        None \<Rightarrow> js ''N/A''
      | Some v \<Rightarrow> if v \<noteq> 0 then toFixed N (fmul N v 100) 2 else js ''N/A'')"

definition csvRow :: "number_ops \<Rightarrow> detailed_result \<Rightarrow> jsstring list" where
  "csvRow N result =
     [sequence_id result,
      prediction result,
      toFixed N (fmul N (probability result) 100) 2,
      numToString N (sequence_length result),
      percentOrNA N (case raw_probabilities result of None \<Rightarrow> None | Some rp \<Rightarrow> viral rp),
      percentOrNA N (case raw_probabilities result of None \<Rightarrow> None | Some rp \<Rightarrow> non_viral rp)]"

definition exportCSV :: "number_ops \<Rightarrow> prediction_results option \<Rightarrow> jsstring option" where
  "exportCSV N results =
     (case results of
        None \<Rightarrow> None
      | Some res \<Rightarrow>
          (case detailed_results res of
             None \<Rightarrow> None
           | Some ds \<Rightarrow>
               Some (join [0x0A] (map (join (js '','')) (csvHeaders # map (csvRow N) ds)))))"







section \<open>Upload page (pages/Results.js, second part)\<close>

text \<open>
  A \<open>File\<close>: its name, size and MIME type, and what \<open>FileReader.readAsText\<close>
  hands to \<open>onload\<close> (\<open>None\<close> when the read fails and \<open>onload\<close> never runs).
\<close>

record js_file =
  name :: jsstring
  size' :: number
  type' :: jsstring
  contents :: "jsstring option"

record upload_page = page +
  uploadedFile_up :: "js_file option"
  rawSequence :: jsstring

text \<open>
  \<^verbatim>\<open>
  const processRawSequence = () => {
    const sequence = rawSequence.trim();
    if (!sequence) {
      showNotification('Please enter a DNA sequence', 'error');
      return;
    }
    if (!validateDNASequence(sequence)) {
      showNotification('Invalid DNA sequence. Only A, T, G, C, N characters allowed.', 'error');
      return;
    }
    const cleanSequence = sequence.replace(/[\s\n\r]/g, '').toUpperCase();
    const fastaContent = `>User_Sequence\n${cleanSequence}`;
    const blob = new Blob([fastaContent], { type: 'text/plain' });
    const file = new File([blob], 'user_sequence.fasta', { type: 'text/plain' });
    setUploadedFile(file);
    showNotification('Sequence processed! Ready for prediction.', 'success');
  };
  \<close>
  The text of the blob is ASCII on this path, so its size in bytes is its length.
\<close>

definition processRawSequence :: "(jsstring \<Rightarrow> jsstring) \<Rightarrow> upload_page \<Rightarrow> upload_page" where
  "processRawSequence up st =
     (let sequence = trim (rawSequence st)
      in if sequence = []
         then showNotification (js ''Please enter a DNA sequence'') (js ''error'') st
         else if \<not> validateDNASequence sequence
         then showNotification
                (js ''Invalid DNA sequence. Only A, T, G, C, N characters allowed.'') (js ''error'') st
         else
           (let cleanSequence = toUpperCase up (filter (\<lambda>c. \<not> isSpace c) sequence);
                fastaContent = js ''>User_Sequence'' @ [0x0A] @ cleanSequence;
                file = \<lparr>name = js ''user_sequence.fasta'', size' = of_nat (length fastaContent),
                        type' = js ''text/plain'', contents = Some fastaContent\<rparr>
            in showNotification (js ''Sequence processed! Ready for prediction.'') (js ''success'')
                 (st\<lparr>uploadedFile_up := Some file\<rparr>)))"

text \<open>
  \<^verbatim>\<open>
  const proceedToModels = () => {
    if (!uploadedFile) {
      showNotification('Please select a file or enter a sequence first', 'error');
      return;
    }
    const reader = new FileReader();
    reader.onload = (e) => {
      localStorage.setItem('uploadedFile', JSON.stringify({
        name: uploadedFile.name,
        size: uploadedFile.size,
        type: uploadedFile.type
      }));
      localStorage.setItem('fileContent', e.target.result);
      window.location.hash = 'models';
    };
    reader.readAsText(uploadedFile);
  };
  \<close>
  \<open>JSON.stringify\<close> is the parameter \<open>stringify\<close>. An exception of \<open>setItem\<close>
  ends the handler where it is raised.
\<close>

definition proceedToModels ::
  "(json \<Rightarrow> jsstring) \<Rightarrow> (storage \<Rightarrow> bool) \<Rightarrow> upload_page \<Rightarrow> upload_page" where
  "proceedToModels stringify fits st =
     (case uploadedFile_up st of
        None \<Rightarrow>
          showNotification (js ''Please select a file or enter a sequence first'') (js ''error'') st
      | Some f \<Rightarrow>
          (case contents f of
             None \<Rightarrow> st
           | Some result \<Rightarrow>
               (case setItem fits (js ''uploadedFile'')
                       (stringify (JObj [(js ''name'', JStr (name f)),
                                         (js ''size'', JNum (size' f)),
                                         (js ''type'', JStr (type' f))]))
                       (localStorage st) of
                  Inl e \<Rightarrow> st
                | Inr ls1 \<Rightarrow>
                    (case setItem fits (js ''fileContent'') result ls1 of
                       Inl e \<Rightarrow> st\<lparr>localStorage := ls1\<rparr>
                     | Inr ls2 \<Rightarrow> st\<lparr>localStorage := ls2, location_hash := js ''models''\<rparr>))))"

section \<open>Models page (src/utils/index.js, second part)\<close>

text \<open>
  The state of \<open>ModelsPage\<close>. \<open>selectedModels\<close> is a \<open>Set\<close> of model ids, kept
  as the list of its members in insertion order; \<open>uploadedFile\<close> holds whatever
  \<open>JSON.parse\<close> returned (\<open>JNull\<close> at the start).
\<close>

record models_page = page +
  selectedModels :: "jsstring list"
  isProcessing :: bool
  backendStatus :: jsstring
  uploadedFile :: json
  fileContent :: "jsstring option"

text \<open>How an awaited \<open>fetch(...)\<close> followed by \<open>response.json()\<close> ends.\<close>

datatype settled = Rejected | Resolved json

text \<open>
  \<^verbatim>\<open>
  const checkBackendStatus = async () => {
    try {
      const response = await fetch(`${API_URL}/health`);
      const data = await response.json();
      if (data.status === 'healthy') {
        setBackendStatus('connected');
        showNotification('Backend connected! Model ready for predictions.', 'success');
      }
    } catch (error) {
      setBackendStatus('disconnected');
      showNotification('Backend not connected. Please start the Flask server.', 'error');
    }
  };
  \<close>
  Reading a property of \<open>null\<close> raises a \<open>TypeError\<close>, which the \<open>catch\<close> takes.
\<close>

definition backend_unreachable :: "models_page \<Rightarrow> models_page" where
  "backend_unreachable st =
     showNotification (js ''Backend not connected. Please start the Flask server.'') (js ''error'')
       (st\<lparr>backendStatus := js ''disconnected''\<rparr>)"

definition checkBackendStatus :: "settled \<Rightarrow> models_page \<Rightarrow> models_page" where
  "checkBackendStatus outcome st =
     (case outcome of
        Rejected \<Rightarrow> backend_unreachable st
      | Resolved data \<Rightarrow>
          if data = JNull then backend_unreachable st
          else if get_prop data (js ''status'') = Some (JStr (js ''healthy''))
          then showNotification (js ''Backend connected! Model ready for predictions.'') (js ''success'')
                 (st\<lparr>backendStatus := js ''connected''\<rparr>)
          else st)"

text \<open>
  \<^verbatim>\<open>
  const loadUploadedFile = () => {
    const fileInfo = localStorage.getItem('uploadedFile');
    const content = localStorage.getItem('fileContent');
    if (fileInfo && content) {
      setUploadedFile(JSON.parse(fileInfo));
      setFileContent(content);
    } else {
      showNotification('No file found. Please upload a file first.', 'warning');
    }
  };
  \<close>
  \<open>JSON.parse\<close> stands in no \<open>try\<close> here: its \<open>SyntaxError\<close> leaves the function.
\<close>

definition loadUploadedFile ::
  "(jsstring \<Rightarrow> json option) \<Rightarrow> models_page \<Rightarrow> js_error + models_page" where
  "loadUploadedFile parse st =
     (let fileInfo = getItem (localStorage st) (js ''uploadedFile'');
          content = getItem (localStorage st) (js ''fileContent'');
          missing = Inr (showNotification (js ''No file found. Please upload a file first.'')
                          (js ''warning'') st)
      in case fileInfo of
           None \<Rightarrow> missing
         | Some info \<Rightarrow>
             (case content of
                None \<Rightarrow> missing
              | Some c \<Rightarrow>
                  if info \<noteq> [] \<and> c \<noteq> []
                  then (case parse info of
                          None \<Rightarrow> Inl SyntaxError
                        | Some v \<Rightarrow> Inr (st\<lparr>uploadedFile := v, fileContent := Some c\<rparr>))
                  else missing))"

text \<open>
  \<^verbatim>\<open>
  const runPrediction = async () => {
    if (!uploadedFile || !fileContent) {
      showNotification('No file uploaded. Please upload a file first.', 'error');
      return;
    }
    if (selectedModels.size === 0) {
      showNotification('Please select at least one model', 'error');
      return;
    }
    if (backendStatus !== 'connected') {
      showNotification('Backend not connected. Please start the Flask server.', 'error');
      return;
    }
    try {
      setIsProcessing(true);
      showNotification('... Running prediction on your sequences...', 'info');
      const formData = new FormData();
      const blob = new Blob([fileContent], { type: 'text/plain' });
      const file = new File([blob], uploadedFile.name, { type: 'text/plain' });
      formData.append('file', file);
      const response = await fetch(`${API_URL}/predict`, { method: 'POST', body: formData });
      const data = await response.json();
      if (data.success) {
        localStorage.setItem('predictionResults', JSON.stringify(data.results));
        showNotification('... Prediction completed! Showing results...', 'success');
        setTimeout(() => { window.location.hash = 'results'; }, 1500);
      } else {
        showNotification(`... Prediction failed: ${data.error}`, 'error');
      }
    } catch (error) {
      showNotification('... Prediction failed. Please check the backend connection.', 'error');
    } finally {
      setIsProcessing(false);
    }
  };
  \<close>
  The function runs up to the \<open>await\<close> of \<open>fetch\<close> (\<open>runPrediction\<close>) and goes
  on when the response has settled (\<open>runPrediction_settled\<close>). The three messages
  that start with a pictograph are written with its code units.
\<close>

definition noFileUploaded :: "models_page \<Rightarrow> models_page" where
  "noFileUploaded st =
     showNotification (js ''No file uploaded. Please upload a file first.'') (js ''error'') st"

definition runPrediction :: "models_page \<Rightarrow> models_page" where
  "runPrediction st =
     (case fileContent st of
        None \<Rightarrow> noFileUploaded st
      | Some content \<Rightarrow>
          if \<not> truthy (uploadedFile st) \<or> content = [] then noFileUploaded st
          else if length (selectedModels st) = 0
          then showNotification (js ''Please select at least one model'') (js ''error'') st
          else if backendStatus st \<noteq> js ''connected''
          then showNotification (js ''Backend not connected. Please start the Flask server.'')
                 (js ''error'') st
          else
            (let st1 = showNotification
                         ([0xD83D, 0xDE80] @ js '' Running prediction on your sequences...'')
                         (js ''info'') (st\<lparr>isProcessing := True\<rparr>)
             in st1\<lparr>requests := requests st1 @
                      [\<lparr>url = js ''http://localhost:5000/predict'',
                        file_name = get_prop (uploadedFile st) (js ''name''),
                        file_text = content\<rparr>]\<rparr>))"

definition predictionFailed :: "models_page \<Rightarrow> models_page" where
  "predictionFailed st =
     showNotification
       ([0x274C] @ js '' Prediction failed. Please check the backend connection.'') (js ''error'') st"

definition runPrediction_settled ::
  "(json \<Rightarrow> jsstring) \<Rightarrow> (json option \<Rightarrow> jsstring) \<Rightarrow> (storage \<Rightarrow> bool) \<Rightarrow> settled
     \<Rightarrow> models_page \<Rightarrow> models_page" where
  "runPrediction_settled stringify toStr fits outcome st =
     (let st' =
        (case outcome of
           Rejected \<Rightarrow> predictionFailed st
         | Resolved data \<Rightarrow>
             if data = JNull then predictionFailed st
             else if (case get_prop data (js ''success'') of None \<Rightarrow> False | Some v \<Rightarrow> truthy v)
             then (case setItem fits (js ''predictionResults'')
                          (case get_prop data (js ''results'') of
                             None \<Rightarrow> js ''undefined'' | Some r \<Rightarrow> stringify r)
                          (localStorage st) of
                     Inl e \<Rightarrow> predictionFailed st
                   | Inr ls' \<Rightarrow>
                       (let st1 = showNotification
                                    ([0xD83C, 0xDF89] @ js '' Prediction completed! Showing results...'')
                                    (js ''success'') (st\<lparr>localStorage := ls'\<rparr>)
                        in st1\<lparr>timers := timers st1 @ [(1500, SetHash (js ''results''))]\<rparr>))
             else showNotification
                    ([0x274C] @ js '' Prediction failed: '' @ toStr (get_prop data (js ''error'')))
                    (js ''error'') st)
      in st'\<lparr>isProcessing := False\<rparr>)"

text \<open>The outcome of the health request that sets the status to \<open>connected\<close>.\<close>

definition reports_healthy :: "settled \<Rightarrow> bool" where
  "reports_healthy outcome =
     (case outcome of
        Rejected \<Rightarrow> False
      | Resolved data \<Rightarrow> data \<noteq> JNull \<and> get_prop data (js ''status'') = Some (JStr (js ''healthy'')))"


section \<open>Properties\<close>

subsection \<open>Splitting, joining and trimming\<close>

lemma split_from_no_sep: "sep \<notin> set s \<Longrightarrow> split_from sep cur s = [cur @ s]"
  by (induction s arbitrary: cur) auto

lemma split_from_append:
  "sep \<notin> set a \<Longrightarrow> split_from sep cur (a @ sep # b) = (cur @ a) # split_from sep [] b"
  by (induction a arbitrary: cur) auto

lemma split_from_nonempty: "split_from sep cur s \<noteq> []"
  by (induction s arbitrary: cur) auto

lemma split_from_pieces:
  "sep \<notin> set cur \<Longrightarrow> \<forall>l\<in>set (split_from sep cur s). sep \<notin> set l"
proof (induction s arbitrary: cur)
  case Nil
  then show ?case by simp
next
  case (Cons c cs)
  show ?case
  proof (cases "c = sep")
    case True
    with Cons.prems Cons.IH[of "[]"] show ?thesis by simp
  next
    case False
    with Cons.prems Cons.IH[of "cur @ [c]"] show ?thesis by simp
  qed
qed

lemma split_pieces: "l \<in> set (split sep s) \<Longrightarrow> sep \<notin> set l"
  unfolding split_def using split_from_pieces[of sep "[]" s] by simp

lemma split_join:
  "ls \<noteq> [] \<Longrightarrow> \<forall>l\<in>set ls. sep \<notin> set l \<Longrightarrow> split sep (join [sep] ls) = ls"
proof (induction "[sep]" ls rule: join.induct)
  case 1
  then show ?case by simp
next
  case (2 x)
  then show ?case by (simp add: split_def split_from_no_sep)
next
  case (3 x y ys)
  then show ?case
    using split_from_append[of sep x "[]" "join [sep] (y # ys)"]
    by (simp add: split_def)
qed

lemma join_split_from: "join [sep] (split_from sep cur s) = cur @ s"
proof (induction s arbitrary: cur)
  case Nil
  then show ?case by simp
next
  case (Cons c cs)
  show ?case
  proof (cases "c = sep")
    case True
    obtain p ps where "split_from sep [] cs = p # ps"
      using split_from_nonempty[of sep "[]" cs] by (cases "split_from sep [] cs") auto
    with True Cons[of "[]"] show ?thesis by simp
  next
    case False
    with Cons[of "cur @ [c]"] show ?thesis by simp
  qed
qed

lemma trim_no_space: "\<forall>c\<in>set s. \<not> isSpace c \<Longrightarrow> trim s = s"
proof -
  assume a: "\<forall>c\<in>set s. \<not> isSpace c"
  have d: "\<And>t. \<forall>c\<in>set t. \<not> isSpace c \<Longrightarrow> dropWhile isSpace t = t"
    by (case_tac t) auto
  from a have "dropWhile isSpace s = s" by (rule d)
  moreover from a have "dropWhile isSpace (rev s) = rev s" by (intro d) simp
  ultimately show ?thesis by (simp add: trim_def)
qed

lemma trim_nonempty: "trim s \<noteq> [] \<Longrightarrow> \<exists>c\<in>set s. \<not> isSpace c"
proof -
  assume t: "trim s \<noteq> []"
  have "dropWhile isSpace s \<noteq> []"
  proof
    assume "dropWhile isSpace s = []"
    then have "trim s = []" unfolding trim_def by (simp del: dropWhile_eq_Nil_conv)
    with t show False by simp
  qed
  then obtain c where "c \<in> set s" "\<not> isSpace c"
    by (auto simp: dropWhile_eq_Nil_conv)
  then show ?thesis by blast
qed

subsection \<open>Validation and normalization\<close>

lemmas js_eval = js_def isSpace_def isWhiteSpace_def isLineTerminator_def isDNALetter_def
  validChars_def trim_def startsWith_def substring1_def split_def

lemma letter_facts:
  "isDNALetter c \<Longrightarrow> c < 0x80 \<and> \<not> isSpace c \<and> asciiUpper c \<in> set (js ''ATGCN'')"
  by (auto simp: isDNALetter_def js_def isSpace_def isWhiteSpace_def isLineTerminator_def asciiUpper_def)

lemma upper_facts:
  "c \<in> set (js ''ATGCN'') \<Longrightarrow> c < 0x80 \<and> \<not> isSpace c \<and> asciiUpper c = c \<and> c \<noteq> 0x0A \<and> c \<noteq> 0x3E"
  by (auto simp: js_def isSpace_def isWhiteSpace_def isLineTerminator_def asciiUpper_def)

lemma clean_valid:
  assumes "list_all validChars s"
  shows "cleanDNASequence up s = map asciiUpper (filter isDNALetter s)"
proof -
  have f: "filter (\<lambda>c. \<not> isSpace c) s = filter isDNALetter s"
    using assms by (induction s) (auto simp: validChars_def dest: letter_facts)
  have "list_all (\<lambda>c. c < 0x80) (filter isDNALetter s)"
    by (auto simp: list_all_iff dest: letter_facts)
  then show ?thesis by (simp add: cleanDNASequence_def toUpperCase_def f)
qed

lemma clean_valid_set:
  assumes "list_all validChars s"
  shows "set (cleanDNASequence up s) \<subseteq> set (js ''ATGCN'')"
  using assms by (auto simp: clean_valid dest: letter_facts)

lemma clean_upper:
  assumes "set t \<subseteq> set (js ''ATGCN'')"
  shows "cleanDNASequence up t = t"
proof -
  have 1: "filter (\<lambda>c. \<not> isSpace c) t = t"
    using assms by (auto simp: filter_id_conv dest: upper_facts)
  have 2: "list_all (\<lambda>c. c < 0x80) t"
    using assms by (auto simp: list_all_iff dest: upper_facts)
  have 3: "map asciiUpper t = t"
  proof (rule map_idI)
    fix c assume "c \<in> set t"
    with assms show "asciiUpper c = c" using upper_facts[of c] by blast
  qed
  show ?thesis by (simp add: cleanDNASequence_def toUpperCase_def 1 2 3)
qed

text \<open>
  Claim C1, as stated, asks \<open>validateDNASequence\<close> to reject a string that is empty
  after trimming. The string of one space is empty after trimming and is accepted: the
  character class of the regular expression holds \<open>\s\<close>.
\<close>

theorem validateDNASequence_blank_accepted:
  "trim (js '' '') = [] \<and> validateDNASequence (js '' '')"
  by (simp add: validateDNASequence_def js_eval)

text \<open>
  Claim C1, amended: \<open>validateDNASequence s\<close> is true if and only if \<open>s\<close>
  is not empty and every character of it that is no white space is one of
  \<open>ATGCNatgcn\<close>. The empty string is rejected, and so is every string that holds a
  character outside the letters and white space; a string of white space only that is
  not empty is accepted.
\<close>

theorem validateDNASequence_iff:
  "(validateDNASequence s \<longleftrightarrow>
      s \<noteq> [] \<and> (\<forall>c\<in>set s. \<not> isSpace c \<longrightarrow> isDNALetter c))
   \<and> \<not> validateDNASequence []
   \<and> ((\<exists>c\<in>set s. \<not> isDNALetter c \<and> \<not> isSpace c) \<longrightarrow> \<not> validateDNASequence s)"
  by (auto simp: validateDNASequence_def list_all_iff validChars_def)

theorem validateDNASequence_iff_witness:
  "validateDNASequence (js ''AT gn'') \<and> \<not> validateDNASequence (js ''ATXG'')"
  using validateDNASequence_iff[of "js ''AT gn''"] validateDNASequence_iff[of "js ''ATXG''"]
  by (simp add: js_eval)

lemma processRawSequence_blank:
  "trim (rawSequence st) = [] \<Longrightarrow>
   processRawSequence up st = showNotification (js ''Please enter a DNA sequence'') (js ''error'') st"
  by (simp add: processRawSequence_def)

text \<open>
  Claim C9: for a normalized sequence \<open>s\<close> (one that \<open>cleanDNASequence\<close> leaves as
  it is) \<open>createFastaFromSequence\<close> gives \<open>>\<close>, the id, a line feed and \<open>s\<close>,
  with the id \<open>User_Sequence\<close> when none is given; these are exactly two lines when
  the id holds no line feed. The sequence \<open>atcg\<close>, line feed, \<open>atcg\<close> normalizes
  to \<open>ATCGATCG\<close>, and its FASTA text with the default id is \<open>>User_Sequence\<close>,
  line feed, \<open>ATCGATCG\<close>.
\<close>

theorem createFasta_format:
  "(cleanDNASequence up s = s \<longrightarrow>
      createFastaFromSequence up s (Some ident) = js ''>'' @ ident @ [0x0A] @ s
    \<and> createFastaFromSequence up s None = js ''>User_Sequence'' @ [0x0A] @ s
    \<and> (0x0A \<notin> set ident \<and> 0x0A \<notin> set s \<longrightarrow>
         split 0x0A (createFastaFromSequence up s (Some ident)) = [js ''>'' @ ident, s]))
   \<and> cleanDNASequence up (js ''atcg'' @ [0x0A] @ js ''atcg'') = js ''ATCGATCG''
   \<and> createFastaFromSequence up (js ''ATCGATCG'') None
        = js ''>User_Sequence'' @ [0x0A] @ js ''ATCGATCG''"
proof -
  have a: "cleanDNASequence up (js ''atcg'' @ [0x0A] @ js ''atcg'') = js ''ATCGATCG''"
    by (simp add: cleanDNASequence_def toUpperCase_def asciiUpper_def js_eval)
  have b: "cleanDNASequence up (js ''ATCGATCG'') = js ''ATCGATCG''"
    by (simp add: cleanDNASequence_def toUpperCase_def asciiUpper_def js_eval)
  have c: "split 0x0A (js ''>'' @ ident @ [0x0A] @ s) = [js ''>'' @ ident, s]"
    if "0x0A \<notin> set ident" "0x0A \<notin> set s"
  proof -
    have "(0x0A::code_unit) \<notin> set (js ''>'' @ ident)" using that by (simp add: js_def)
    from split_from_append[OF this, of "[]" s] split_from_no_sep[OF that(2), of "[]"]
    show ?thesis by (simp add: split_def)
  qed
  show ?thesis using a b c
    by (simp add: createFastaFromSequence_def) (simp add: js_def)
qed

theorem createFasta_format_witness:
  "cleanDNASequence id (js ''ACGT'') = js ''ACGT''
   \<and> createFastaFromSequence id (js ''ACGT'') (Some (js ''seq1'')) = js ''>seq1'' @ [0x0A] @ js ''ACGT''
   \<and> split 0x0A (createFastaFromSequence id (js ''ACGT'') (Some (js ''seq1''))) = [js ''>seq1'', js ''ACGT'']"
proof -
  have f: "cleanDNASequence id (js ''ACGT'') = js ''ACGT''"
    by (simp add: cleanDNASequence_def toUpperCase_def asciiUpper_def js_eval)
  have n: "(0x0A::code_unit) \<notin> set (js ''seq1'') \<and> 0x0A \<notin> set (js ''ACGT'')" by (simp add: js_def)
  show ?thesis using createFasta_format[of id "js ''ACGT''" "js ''seq1''"] f n
    by (simp add: js_def split_def)
qed

subsection \<open>The FASTA parser\<close>

lemmas fasta_eval = parseFastaContent_def fasta_lines_def fasta_line_def push_if_complete_def
  isHeader_def Let_def

lemma fasta_lines_foldl: "fasta_lines ls = finish (foldl fasta_line ([], initial) ls)"
  by (simp add: fasta_lines_def finish_def initial_def Let_def)

lemma fasta_line_blank: "trim b = [] \<Longrightarrow> fasta_line st b = st"
  by (simp add: fasta_line_def startsWith_def Let_def)

lemma fasta_blanks: "\<forall>b\<in>set bs. trim b = [] \<Longrightarrow> foldl fasta_line st bs = st"
  by (induction bs arbitrary: st) (simp_all add: fasta_line_blank)

lemma fasta_line_header:
  "isHeader h \<Longrightarrow> fasta_line st h =
     (push_if_complete (fst st) (snd st), \<lparr>id' = substring1 (trim h), sequence = []\<rparr>)"
  by (simp add: fasta_line_def isHeader_def Let_def)

lemma header_then_finish: "isHeader h \<Longrightarrow> finish (fasta_line st h) = finish st"
  by (simp add: fasta_line_header finish_def push_if_complete_def)

lemma header_then_header:
  "isHeader h \<Longrightarrow> isHeader h2 \<Longrightarrow> fasta_line (fasta_line st h) h2 = fasta_line st h2"
  by (simp add: fasta_line_header push_if_complete_def)

lemma drop_empty_header_lines:
  assumes h: "isHeader h" and bs: "\<forall>b\<in>set blanks. trim b = []"
    and r: "rest = [] \<or> isHeader (hd rest)"
  shows "fasta_lines (pre @ h # blanks @ rest) = fasta_lines (pre @ blanks @ rest)"
proof -
  define st where "st = foldl fasta_line ([], initial) pre"
  have L: "foldl fasta_line ([], initial) (pre @ h # blanks @ rest)
           = foldl fasta_line (fasta_line st h) rest"
    by (simp add: st_def fasta_blanks[OF bs])
  have R: "foldl fasta_line ([], initial) (pre @ blanks @ rest) = foldl fasta_line st rest"
    by (simp add: st_def fasta_blanks[OF bs])
  show ?thesis
  proof (cases rest)
    case Nil
    then show ?thesis using L R h by (simp add: fasta_lines_foldl header_then_finish)
  next
    case (Cons h2 r2)
    with r have "isHeader h2" by simp
    then show ?thesis using L R h Cons by (simp add: fasta_lines_foldl header_then_header)
  qed
qed

lemma fasta_line_complete:
  "\<forall>r\<in>set (fst st). complete r \<Longrightarrow> \<forall>r\<in>set (fst (fasta_line st l)). complete r"
  by (auto simp: fasta_line_def Let_def push_if_complete_def complete_def)

lemma foldl_complete:
  "\<forall>r\<in>set (fst st). complete r \<Longrightarrow> \<forall>r\<in>set (fst (foldl fasta_line st ls)). complete r"
proof (induction ls arbitrary: st)
  case Nil
  then show ?case by simp
next
  case (Cons l ls)
  from Cons.prems have "\<forall>r\<in>set (fst (fasta_line st l)). complete r"
    by (rule fasta_line_complete)
  then show ?case using Cons.IH by simp
qed

lemma fasta_lines_complete: "\<forall>r\<in>set (fasta_lines ls). complete r"
  using foldl_complete[of "([], initial)" ls]
  by (auto simp: fasta_lines_foldl finish_def push_if_complete_def complete_def)

lemma headless_line: "headless st \<Longrightarrow> \<not> isHeader l \<Longrightarrow> headless (fasta_line st l)"
  by (simp add: headless_def fasta_line_def isHeader_def Let_def)

lemma headless_header:
  "headless st \<Longrightarrow> isHeader l \<Longrightarrow> fasta_line st l = fasta_line ([], initial) l"
  by (simp add: headless_def fasta_line_header push_if_complete_def initial_def)

lemma headless_run:
  "headless st \<Longrightarrow> finish (foldl fasta_line st ls) = finish (foldl fasta_line ([], initial) ls)"
proof (induction ls arbitrary: st)
  case Nil
  then show ?case by (simp add: finish_def headless_def push_if_complete_def initial_def)
next
  case (Cons l ls)
  have i: "headless ([], initial)" by (simp add: headless_def initial_def)
  show ?case
  proof (cases "isHeader l")
    case True
    with Cons.prems show ?thesis by (simp add: headless_header)
  next
    case False
    have "finish (foldl fasta_line (fasta_line st l) ls) = finish (foldl fasta_line ([], initial) ls)"
      using Cons.IH[OF headless_line[OF Cons.prems False]] .
    moreover have "finish (foldl fasta_line (fasta_line ([], initial) l) ls) = finish (foldl fasta_line ([], initial) ls)"
      using Cons.IH[OF headless_line[OF i False]] .
    ultimately show ?thesis by simp
  qed
qed

lemma headless_prefix:
  "\<forall>l\<in>set pre. \<not> isHeader l \<Longrightarrow> headless st \<Longrightarrow> headless (foldl fasta_line st pre)"
  by (induction pre arbitrary: st) (simp_all add: headless_line)

lemma drop_lines_before_first_header:
  assumes "\<forall>l\<in>set pre. \<not> isHeader l"
  shows "fasta_lines (pre @ rest) = fasta_lines rest"
proof -
  have "headless (foldl fasta_line ([], initial) pre)"
    using assms by (intro headless_prefix) (simp_all add: headless_def initial_def)
  then show ?thesis by (simp add: fasta_lines_foldl headless_run)
qed

lemma fasta_lines_join:
  assumes "\<forall>l\<in>set ls. (0x0A::code_unit) \<notin> set l"
  shows "parseFastaContent (join [0x0A] ls) = fasta_lines ls"
proof (cases ls)
  case Nil
  have "trim [] = []" by (simp add: trim_def)
  then have "fasta_line ([], initial) [] = ([], initial)" by (rule fasta_line_blank)
  with Nil show ?thesis by (simp add: parseFastaContent_def split_def fasta_lines_foldl)
next
  case (Cons a as)
  with assms show ?thesis using split_join[of ls "0x0A"] by (simp add: parseFastaContent_def)
qed

lemma fasta_two_lines:
  assumes b: "set body \<subseteq> set (js ''ATGCN'')" and ne: "body \<noteq> []"
  shows "parseFastaContent (js ''>X'' @ [0x0A] @ body) = [\<lparr>id' = js ''X'', sequence = body\<rparr>]"
proof -
  have nl: "(0x0A::code_unit) \<notin> set body" using b upper_facts by blast
  have sp: "\<forall>c\<in>set body. \<not> isSpace c" using b upper_facts by blast
  have gt: "\<not> startsWith body 0x3E"
    using b ne upper_facts[of "hd body"] by (cases body) (auto simp: startsWith_def)
  have s: "split 0x0A (js ''>X'' @ [0x0A] @ body) = [js ''>X'', body]"
    using split_from_append[of "0x0A" "js ''>X''" "[]" body] split_from_no_sep[OF nl, of "[]"]
    by (simp add: split_def js_def)
  have t: "trim (js ''>X'') = js ''>X''" by (simp add: js_eval)
  have h: "fasta_line ([], \<lparr>id' = [], sequence = []\<rparr>) (js ''>X'')
           = ([], \<lparr>id' = js ''X'', sequence = []\<rparr>)"
    by (simp add: fasta_line_def t push_if_complete_def Let_def)
       (simp add: js_def startsWith_def substring1_def)
  have l: "fasta_line ([], \<lparr>id' = js ''X'', sequence = []\<rparr>) body
           = ([], \<lparr>id' = js ''X'', sequence = body\<rparr>)"
    by (simp add: fasta_line_def trim_no_space[OF sp] gt ne Let_def)
  have "parseFastaContent (js ''>X'' @ [0x0A] @ body) = fasta_lines [js ''>X'', body]"
    by (simp only: parseFastaContent_def s)
  also have "\<dots> = [\<lparr>id' = js ''X'', sequence = body\<rparr>]"
    by (simp add: fasta_lines_def h l push_if_complete_def ne Let_def) (simp add: js_def)
  finally show ?thesis .
qed

text \<open>
  Claim C2, as stated, covers every non-empty string of letters and white space. For
  the string of one space the normalized sequence is empty, the FASTA text is the
  header line alone, and \<open>parseFastaContent\<close> returns no record.
\<close>

theorem roundtrip_blank_lost:
  "js '' '' \<noteq> [] \<and> list_all validChars (js '' '')
   \<and> parseFastaContent (createFastaFromSequence id
         (cleanDNASequence id (js '' '')) (Some (js ''X''))) = []"
  by (simp add: createFastaFromSequence_def cleanDNASequence_def toUpperCase_def asciiUpper_def
      js_eval fasta_eval)

text \<open>
  Claim C2, amended: for every string \<open>s\<close> that \<open>validateDNASequence\<close> accepts
  and that is not empty after trimming, parsing the FASTA text made from the
  normalized \<open>s\<close> with the id \<open>X\<close> gives exactly one record, with id \<open>X\<close> and
  the normalized \<open>s\<close> as its sequence.
\<close>

theorem fasta_roundtrip:
  assumes "validateDNASequence s" and "trim s \<noteq> []"
  shows "parseFastaContent (createFastaFromSequence up (cleanDNASequence up s) (Some (js ''X'')))
         = [\<lparr>id' = js ''X'', sequence = cleanDNASequence up s\<rparr>]"
proof -
  from assms(1) have v: "list_all validChars s" by (simp add: validateDNASequence_def)
  have sub: "set (cleanDNASequence up s) \<subseteq> set (js ''ATGCN'')" by (rule clean_valid_set[OF v])
  obtain c where c: "c \<in> set s" "\<not> isSpace c" using trim_nonempty[OF assms(2)] by blast
  with v have "isDNALetter c" by (auto simp: list_all_iff validChars_def)
  with c have ne: "cleanDNASequence up s \<noteq> []" by (auto simp: clean_valid[OF v] filter_empty_conv)
  have "createFastaFromSequence up (cleanDNASequence up s) (Some (js ''X''))
        = js ''>X'' @ [0x0A] @ cleanDNASequence up s"
    by (simp add: createFastaFromSequence_def clean_upper[OF sub] js_def)
  with fasta_two_lines[OF sub ne] show ?thesis by simp
qed

theorem fasta_roundtrip_witness:
  "validateDNASequence (js ''at cg'') \<and> trim (js ''at cg'') \<noteq> []
   \<and> parseFastaContent (createFastaFromSequence id
        (cleanDNASequence id (js ''at cg'')) (Some (js ''X'')))
      = [\<lparr>id' = js ''X'', sequence = js ''ATCG''\<rparr>]"
proof -
  have v: "validateDNASequence (js ''at cg'')" by (simp add: validateDNASequence_def js_eval)
  have t: "trim (js ''at cg'') \<noteq> []" by (simp add: js_eval)
  have c: "cleanDNASequence id (js ''at cg'') = js ''ATCG''"
    by (simp add: cleanDNASequence_def toUpperCase_def asciiUpper_def js_eval)
  show ?thesis using fasta_roundtrip[OF v t, of id] v t c by simp
qed

text \<open>
  Claim C5: a header line that is followed only by blank lines up to the next header
  line or the end of the input gives no record. For every input whose lines are
  \<open>pre\<close>, such a header \<open>h\<close>, the blank lines and \<open>rest\<close>, the result of
  \<open>parseFastaContent\<close> is the result for the input without the line \<open>h\<close>.
\<close>

theorem parseFasta_drops_empty_header:
  assumes "split 0x0A content = pre @ h # blanks @ rest"
    and "isHeader h"
    and "\<forall>b\<in>set blanks. trim b = []"
    and "rest = [] \<or> isHeader (hd rest)"
  shows "parseFastaContent content = parseFastaContent (join [0x0A] (pre @ blanks @ rest))"
proof -
  have "\<forall>l\<in>set (pre @ h # blanks @ rest). (0x0A::code_unit) \<notin> set l"
    using split_pieces[of _ "0x0A" content] assms(1) by simp
  then have "\<forall>l\<in>set (pre @ blanks @ rest). (0x0A::code_unit) \<notin> set l" by simp
  then have "parseFastaContent (join [0x0A] (pre @ blanks @ rest)) = fasta_lines (pre @ blanks @ rest)"
    by (rule fasta_lines_join)
  moreover have "parseFastaContent content = fasta_lines (pre @ h # blanks @ rest)"
    by (simp add: parseFastaContent_def assms(1))
  ultimately show ?thesis
    using drop_empty_header_lines[OF assms(2) assms(3) assms(4), of pre] by simp
qed

theorem parseFasta_drops_empty_header_witness:
  "parseFastaContent (js ''>Z'' @ [0x0A] @ js ''TT'' @ [0x0A] @ js ''>A'' @ [0x0A] @ js '' ''
      @ [0x0A] @ js ''>B'' @ [0x0A] @ js ''ACGT'')
   = [\<lparr>id' = js ''Z'', sequence = js ''TT''\<rparr>, \<lparr>id' = js ''B'', sequence = js ''ACGT''\<rparr>]"
proof -
  let ?content = "js ''>Z'' @ [0x0A] @ js ''TT'' @ [0x0A] @ js ''>A'' @ [0x0A] @ js '' ''
      @ [0x0A] @ js ''>B'' @ [0x0A] @ js ''ACGT''"
  have 1: "split 0x0A ?content = [js ''>Z'', js ''TT''] @ js ''>A'' # [js '' ''] @ [js ''>B'', js ''ACGT'']"
    by (simp add: js_def split_def)
  have 2: "isHeader (js ''>A'')" by (simp add: isHeader_def js_eval)
  have 3: "\<forall>b\<in>set [js '' '']. trim b = []" by (simp add: js_eval)
  have 4: "[js ''>B'', js ''ACGT''] = [] \<or> isHeader (hd [js ''>B'', js ''ACGT''])"
    by (simp add: isHeader_def js_eval)
  have "parseFastaContent (join [0x0A] ([js ''>Z'', js ''TT''] @ [js '' ''] @ [js ''>B'', js ''ACGT'']))
        = [\<lparr>id' = js ''Z'', sequence = js ''TT''\<rparr>, \<lparr>id' = js ''B'', sequence = js ''ACGT''\<rparr>]"
    by (simp add: js_eval fasta_eval)
  with parseFasta_drops_empty_header[OF 1 2 3 4] show ?thesis by simp
qed

text \<open>
  Claim C10: every record that \<open>parseFastaContent\<close> returns has a non-empty id and a
  non-empty sequence, and lines before the first header line are discarded: when the
  lines of the input are \<open>pre\<close> followed by \<open>rest\<close> and no line of \<open>pre\<close> is a
  header, the result is the result for \<open>rest\<close> alone.
\<close>

theorem parseFasta_records_complete:
  "(\<forall>r\<in>set (parseFastaContent content). id' r \<noteq> [] \<and> sequence r \<noteq> [])
   \<and> (\<forall>pre rest. split 0x0A content = pre @ rest \<and> (\<forall>l\<in>set pre. \<not> isHeader l)
         \<longrightarrow> parseFastaContent content = parseFastaContent (join [0x0A] rest))"
proof (intro conjI allI impI)
  show "\<forall>r\<in>set (parseFastaContent content). id' r \<noteq> [] \<and> sequence r \<noteq> []"
    using fasta_lines_complete[of "split 0x0A content"]
    by (simp add: parseFastaContent_def complete_def)
next
  fix pre rest
  assume a: "split 0x0A content = pre @ rest \<and> (\<forall>l\<in>set pre. \<not> isHeader l)"
  have "\<forall>l\<in>set (pre @ rest). (0x0A::code_unit) \<notin> set l"
    using split_pieces[of _ "0x0A" content] a by simp
  then have "\<forall>l\<in>set rest. (0x0A::code_unit) \<notin> set l" by simp
  then have "parseFastaContent (join [0x0A] rest) = fasta_lines rest"
    by (rule fasta_lines_join)
  moreover have "parseFastaContent content = fasta_lines (pre @ rest)"
    using a by (simp add: parseFastaContent_def)
  ultimately show "parseFastaContent content = parseFastaContent (join [0x0A] rest)"
    using drop_lines_before_first_header[of pre rest] a by simp
qed

theorem parseFasta_records_complete_witness:
  "parseFastaContent (js ''ACGT'' @ [0x0A] @ js ''>B'' @ [0x0A] @ js ''TT'')
     = [\<lparr>id' = js ''B'', sequence = js ''TT''\<rparr>]
   \<and> id' (hd (parseFastaContent (js ''ACGT'' @ [0x0A] @ js ''>B'' @ [0x0A] @ js ''TT''))) \<noteq> []"
proof -
  let ?content = "js ''ACGT'' @ [0x0A] @ js ''>B'' @ [0x0A] @ js ''TT''"
  have 1: "split 0x0A ?content = [js ''ACGT''] @ [js ''>B'', js ''TT'']"
    by (simp add: js_def split_def)
  have 2: "\<forall>l\<in>set [js ''ACGT'']. \<not> isHeader l" by (simp add: isHeader_def js_eval)
  have 3: "parseFastaContent (join [0x0A] [js ''>B'', js ''TT'']) = [\<lparr>id' = js ''B'', sequence = js ''TT''\<rparr>]"
    by (simp add: js_eval fasta_eval)
  from parseFasta_records_complete[of ?content] 1 2 have "parseFastaContent ?content = parseFastaContent (join [0x0A] [js ''>B'', js ''TT''])"
    by blast
  with 3 have 4: "parseFastaContent ?content = [\<lparr>id' = js ''B'', sequence = js ''TT''\<rparr>]" by simp
  from parseFasta_records_complete[of ?content] have "\<forall>r\<in>set (parseFastaContent ?content). id' r \<noteq> []" by blast
  with 4 show ?thesis by simp
qed

subsection \<open>The CSV export\<close>

lemma header_line:
  "join (js '','') csvHeaders
   = js ''Sequence_ID,Prediction,Confidence,Length,Viral_Probability,NonViral_Probability''"
  by (simp add: csvHeaders_def js_def)

lemma row_line:
  "join (js '','') (csvRow N r)
   = sequence_id r @ js '','' @ prediction r @ js '',''
     @ toFixed N (fmul N (probability r) 100) 2 @ js '','' @ numToString N (sequence_length r)
     @ js '',''
     @ percentOrNA N (case raw_probabilities r of None \<Rightarrow> None | Some rp \<Rightarrow> viral rp)
     @ js '',''
     @ percentOrNA N (case raw_probabilities r of None \<Rightarrow> None | Some rp \<Rightarrow> non_viral rp)"
  by (simp add: csvRow_def)

lemma exportCSV_lines:
  "detailed_results res = Some ds \<Longrightarrow>
   exportCSV N (Some res)
   = Some (join [0x0A]
       (js ''Sequence_ID,Prediction,Confidence,Length,Viral_Probability,NonViral_Probability''
        # map (\<lambda>r. join (js '','') (csvRow N r)) ds))"
  by (simp add: exportCSV_def header_line comp_def)

lemma percentOrNA_absent_or_zero:
  "p = None \<or> p = Some 0 \<Longrightarrow> percentOrNA N p = js ''N/A''"
  by (auto simp: percentOrNA_def)

lemma percentOrNA_nonzero:
  "v \<noteq> 0 \<Longrightarrow> percentOrNA N (Some v) = toFixed N (fmul N v 100) 2"
  by (simp add: percentOrNA_def)


















text \<open>
  Claim C3 asks for \<open>N/A\<close> exactly when a raw probability is absent. The test of
  the source is the truthiness of the number, so a raw probability that is present
  and zero is written as \<open>N/A\<close> too: here the entry has \<open>viral = 0\<close> and
  \<open>non_viral = 1\<close>, and the fifth column of its row is \<open>N/A\<close>.
\<close>

theorem exportCSV_zero_probability_NA:
  "exportCSV N
     (Some \<lparr>detailed_results = Some
        [\<lparr>sequence_id = js ''seq1'', prediction = js ''Non-Viral'', probability = 1,
          sequence_length = 4,
          raw_probabilities = Some \<lparr>viral = Some 0, non_viral = Some 1\<rparr>\<rparr>]\<rparr>)
   = Some (js ''Sequence_ID,Prediction,Confidence,Length,Viral_Probability,NonViral_Probability''
           @ [0x0A] @ js ''seq1,Non-Viral,'' @ toFixed N (fmul N 1 100) 2 @ js '','' @ numToString N 4
           @ js '',N/A,'' @ toFixed N (fmul N 1 100) 2)"
  by (simp add: exportCSV_def csvHeaders_def csvRow_def percentOrNA_def js_def)

subsection \<open>The store and the prediction run\<close>

lemma storage_get_parse_failure:
  "getItem ls key = Some item \<Longrightarrow> parse item = None \<Longrightarrow> storage_get parse ls key = JNull"
  by (simp add: storage_get_def)

lemma loadUploadedFile_missing:
  "getItem (localStorage st) (js ''uploadedFile'') = None
     \<or> getItem (localStorage st) (js ''fileContent'') = None \<Longrightarrow>
   loadUploadedFile parse st
   = Inr (showNotification (js ''No file found. Please upload a file first.'') (js ''warning'') st)"
  by (auto simp: loadUploadedFile_def Let_def split: option.splits)

text \<open>
  Claim C4 asks \<open>loadUploadedFile\<close> to treat a stored value that does not
  deserialize as absent and never to raise. When both keys hold non-empty strings and
  \<open>JSON.parse\<close> rejects the stored metadata, the \<open>SyntaxError\<close> leaves the
  function.
\<close>

theorem loadUploadedFile_parse_error_escapes:
  assumes "getItem (localStorage st) (js ''uploadedFile'') = Some info"
    and "getItem (localStorage st) (js ''fileContent'') = Some c"
    and "info \<noteq> []" and "c \<noteq> []"
    and "parse info = None"
  shows "loadUploadedFile parse st = Inl SyntaxError"
  using assms by (simp add: loadUploadedFile_def Let_def)

theorem loadUploadedFile_parse_error_escapes_witness:
  "loadUploadedFile (\<lambda>s. if s = js ''{'' then None else Some JNull)
     \<lparr>localStorage = [js ''uploadedFile'' \<mapsto> js ''{'',
                       js ''fileContent'' \<mapsto> js ''>X'' @ [0x0A] @ js ''ACGT''],
      location_hash = js ''models'', timers = [], requests = [], notification = None,
      selectedModels = [js ''random-forest''], isProcessing = False,
      backendStatus = js ''checking'', uploadedFile = JNull, fileContent = None\<rparr>
   = Inl SyntaxError"
proof -
  let ?ls = "[js ''uploadedFile'' \<mapsto> js ''{'',
              js ''fileContent'' \<mapsto> js ''>X'' @ [0x0A] @ js ''ACGT'']"
  let ?st = "\<lparr>localStorage = ?ls,
      location_hash = js ''models'', timers = [], requests = [], notification = None,
      selectedModels = [js ''random-forest''], isProcessing = False,
      backendStatus = js ''checking'', uploadedFile = JNull, fileContent = None\<rparr>"
  let ?parse = "\<lambda>s. if s = js ''{'' then None else Some JNull"
  have 1: "getItem (localStorage ?st) (js ''uploadedFile'') = Some (js ''{'')"
    by (simp add: getItem_def js_def)
  have 2: "getItem (localStorage ?st) (js ''fileContent'') = Some (js ''>X'' @ [0x0A] @ js ''ACGT'')"
    by (simp add: getItem_def js_def)
  have 3: "js ''{'' \<noteq> []" by (simp add: js_def)
  have 4: "js ''>X'' @ [0x0A] @ js ''ACGT'' \<noteq> []" by (simp add: js_def)
  have 5: "?parse (js ''{'') = None" by simp
  show ?thesis by (rule loadUploadedFile_parse_error_escapes[where parse = "?parse", OF 1 2 3 4 5])
qed

lemma connected_neq_disconnected: "js ''disconnected'' \<noteq> js ''connected''"
  by (simp add: js_def)

lemma checkBackendStatus_connected:
  "backendStatus (checkBackendStatus outcome st) = js ''connected'' \<longleftrightarrow>
     reports_healthy outcome
     \<or> (\<exists>data. outcome = Resolved data \<and> data \<noteq> JNull \<and> backendStatus st = js ''connected'')"
  by (cases outcome)
     (auto simp: checkBackendStatus_def reports_healthy_def backend_unreachable_def
        showNotification_def connected_neq_disconnected)

lemma checkBackendStatus_requests: "requests (checkBackendStatus outcome st) = requests st"
  by (cases outcome)
     (auto simp: checkBackendStatus_def backend_unreachable_def showNotification_def)

lemma showNotification_fields:
  "requests (showNotification m t st) = requests st"
  "localStorage (showNotification m t st) = localStorage st"
  "location_hash (showNotification m t st) = location_hash st"
  "notification (showNotification m t st) = Some \<lparr>message = m, ntype = t\<rparr>"
  by (simp_all add: showNotification_def)

lemma showNotification_models:
  "isProcessing (showNotification m t st) = isProcessing st"
  "backendStatus (showNotification m t st) = backendStatus st"
  "selectedModels (showNotification m t st) = selectedModels st"
  by (simp_all add: showNotification_def)

lemma runPrediction_guarded:
  assumes "selectedModels st = [] \<or> backendStatus st \<noteq> js ''connected''"
  shows "\<exists>m. runPrediction st = showNotification m (js ''error'') st"
  using assms
  by (auto simp: runPrediction_def noFileUploaded_def split: option.splits)

lemma runPrediction_sends:
  assumes "truthy (uploadedFile st)" and "fileContent st = Some content" and "content \<noteq> []"
    and "selectedModels st \<noteq> []" and "backendStatus st = js ''connected''"
  shows "requests (runPrediction st)
         = requests st @ [\<lparr>url = js ''http://localhost:5000/predict'',
                            file_name = get_prop (uploadedFile st) (js ''name''),
                            file_text = content\<rparr>]
       \<and> isProcessing (runPrediction st)"
  using assms by (simp add: runPrediction_def showNotification_def Let_def)

lemma health_check_gate:
  assumes "backendStatus st \<noteq> js ''connected''" and "\<not> reports_healthy outcome"
  shows "requests (runPrediction (checkBackendStatus outcome st)) = requests st"
proof -
  have "backendStatus (checkBackendStatus outcome st) \<noteq> js ''connected''"
    using assms by (simp add: checkBackendStatus_connected)
  then obtain m where "runPrediction (checkBackendStatus outcome st)
      = showNotification m (js ''error'') (checkBackendStatus outcome st)"
    using runPrediction_guarded[of "checkBackendStatus outcome st"] by blast
  then show ?thesis by (simp add: showNotification_fields checkBackendStatus_requests)
qed

text \<open>
  Claim C7: when no model is selected or the backend status is not \<open>connected\<close>,
  \<open>runPrediction\<close> sends no request, shows a notification of type \<open>error\<close>, and
  leaves \<open>isProcessing\<close>, the location hash and the store as they were.
\<close>

theorem runPrediction_guard:
  assumes "selectedModels st = [] \<or> backendStatus st \<noteq> js ''connected''"
  shows "requests (runPrediction st) = requests st
       \<and> (\<exists>m. notification (runPrediction st) = Some \<lparr>message = m, ntype = js ''error''\<rparr>)
       \<and> isProcessing (runPrediction st) = isProcessing st
       \<and> location_hash (runPrediction st) = location_hash st
       \<and> localStorage (runPrediction st) = localStorage st"
proof -
  from runPrediction_guarded[OF assms]
  obtain m where "runPrediction st = showNotification m (js ''error'') st" ..
  then show ?thesis by (simp add: showNotification_fields showNotification_models)
qed

theorem runPrediction_guard_witness:
  "requests (runPrediction
     \<lparr>localStorage = Map.empty, location_hash = js ''models'', timers = [], requests = [],
      notification = None, selectedModels = [], isProcessing = False,
      backendStatus = js ''connected'',
      uploadedFile = JObj [(js ''name'', JStr (js ''a.fasta''))],
      fileContent = Some (js ''>X'' @ [0x0A] @ js ''ACGT'')\<rparr>) = []
   \<and> notification (runPrediction
     \<lparr>localStorage = Map.empty, location_hash = js ''models'', timers = [], requests = [],
      notification = None, selectedModels = [], isProcessing = False,
      backendStatus = js ''connected'',
      uploadedFile = JObj [(js ''name'', JStr (js ''a.fasta''))],
      fileContent = Some (js ''>X'' @ [0x0A] @ js ''ACGT'')\<rparr>)
     = Some \<lparr>message = js ''Please select at least one model'', ntype = js ''error''\<rparr>"
proof -
  let ?st = "\<lparr>localStorage = Map.empty, location_hash = js ''models'', timers = [], requests = [],
      notification = None, selectedModels = [], isProcessing = False,
      backendStatus = js ''connected'',
      uploadedFile = JObj [(js ''name'', JStr (js ''a.fasta''))],
      fileContent = Some (js ''>X'' @ [0x0A] @ js ''ACGT'')\<rparr>"
  have g: "selectedModels ?st = [] \<or> backendStatus ?st \<noteq> js ''connected''" by simp
  have n: "notification (runPrediction ?st)
     = Some \<lparr>message = js ''Please select at least one model'', ntype = js ''error''\<rparr>"
    by (simp add: runPrediction_def showNotification_def)
  from runPrediction_guard[OF g] have "requests (runPrediction ?st) = requests ?st" by blast
  with n show ?thesis by simp
qed

lemma key_facts:
  "js ''uploadedFile'' \<noteq> js ''predictionResults''"
  "js ''fileContent'' \<noteq> js ''predictionResults''"
  "js ''uploadedFile'' \<noteq> js ''fileContent''"
  by (simp_all add: js_def)

lemma setItem_other:
  "setItem fits key v ls = Inr ls' \<Longrightarrow> k \<noteq> key \<Longrightarrow> ls' k = ls k"
  by (auto simp: setItem_def split: if_splits)

lemma proceedToModels_results_slot:
  "localStorage (proceedToModels stringify fits up) (js ''predictionResults'')
   = localStorage up (js ''predictionResults'')"
proof -
  have k1: "js ''predictionResults'' \<noteq> js ''uploadedFile''" using key_facts(1) by simp
  have k2: "js ''predictionResults'' \<noteq> js ''fileContent''" using key_facts(2) by simp
  show ?thesis
    by (auto simp: proceedToModels_def showNotification_def
          setItem_other[OF _ k1] setItem_other[OF _ k2]
        split: option.splits sum.splits)
qed

lemma runPrediction_settled_upload_slot:
  assumes "k \<noteq> js ''predictionResults''"
  shows "localStorage (runPrediction_settled stringify toStr fits outcome st) k = localStorage st k"
  by (cases outcome)
     (auto simp: runPrediction_settled_def predictionFailed_def showNotification_def Let_def
        setItem_other[OF _ assms]
        split: option.splits sum.splits)

lemma proceedToModels_writes:
  assumes "uploadedFile_up st = Some f" and "contents f = Some result"
  shows "localStorage (proceedToModels stringify (\<lambda>ls. True) st)
         = (localStorage st)
             (js ''uploadedFile'' \<mapsto> stringify (JObj [(js ''name'', JStr (name f)),
                                                      (js ''size'', JNum (size' f)),
                                                      (js ''type'', JStr (type' f))]),
              js ''fileContent'' \<mapsto> result)
       \<and> location_hash (proceedToModels stringify (\<lambda>ls. True) st) = js ''models''"
  using assms by (simp add: proceedToModels_def setItem_def)

text \<open>
  Claim C8: saving an upload (\<open>proceedToModels\<close>) leaves the key
  \<open>predictionResults\<close> of the store as it was, and saving prediction results
  (\<open>runPrediction_settled\<close>) leaves the keys \<open>uploadedFile\<close> and \<open>fileContent\<close>
  as they were, whatever the response and whether or not the store has room.
\<close>

theorem slots_independent:
  "localStorage (proceedToModels stringify fits up) (js ''predictionResults'')
     = localStorage up (js ''predictionResults'')
   \<and> localStorage (runPrediction_settled stringify toStr fits' outcome st) (js ''uploadedFile'')
     = localStorage st (js ''uploadedFile'')
   \<and> localStorage (runPrediction_settled stringify toStr fits' outcome st) (js ''fileContent'')
     = localStorage st (js ''fileContent'')"
  using proceedToModels_results_slot[of stringify fits up]
    runPrediction_settled_upload_slot[OF key_facts(1)]
    runPrediction_settled_upload_slot[OF key_facts(2)]
  by simp

theorem slots_independent_witness:
  "localStorage
     (proceedToModels (\<lambda>j. js ''{}'') (\<lambda>ls. True)
        \<lparr>localStorage = [js ''predictionResults'' \<mapsto> js ''old''],
         location_hash = js ''upload'', timers = [], requests = [], notification = None,
         uploadedFile_up = Some \<lparr>name = js ''a.fasta'', size' = 7, type' = js ''text/plain'',
                                 contents = Some (js ''>X'' @ [0x0A] @ js ''ACGT'')\<rparr>,
         rawSequence = []\<rparr>)
     (js ''predictionResults'') = Some (js ''old'')
   \<and> localStorage
     (proceedToModels (\<lambda>j. js ''{}'') (\<lambda>ls. True)
        \<lparr>localStorage = [js ''predictionResults'' \<mapsto> js ''old''],
         location_hash = js ''upload'', timers = [], requests = [], notification = None,
         uploadedFile_up = Some \<lparr>name = js ''a.fasta'', size' = 7, type' = js ''text/plain'',
                                 contents = Some (js ''>X'' @ [0x0A] @ js ''ACGT'')\<rparr>,
         rawSequence = []\<rparr>)
     (js ''fileContent'') = Some (js ''>X'' @ [0x0A] @ js ''ACGT'')
   \<and> localStorage
     (runPrediction_settled (\<lambda>j. js ''{}'') (\<lambda>j. js ''undefined'') (\<lambda>ls. True)
        (Resolved (JObj [(js ''success'', JBool True), (js ''results'', JObj [])]))
        \<lparr>localStorage = [js ''uploadedFile'' \<mapsto> js ''{}'', js ''fileContent'' \<mapsto> js ''>X''],
         location_hash = js ''models'', timers = [], requests = [], notification = None,
         selectedModels = [js ''random-forest''], isProcessing = True,
         backendStatus = js ''connected'', uploadedFile = JObj [],
         fileContent = Some (js ''>X'')\<rparr>)
     (js ''fileContent'') = Some (js ''>X'')
   \<and> localStorage
     (runPrediction_settled (\<lambda>j. js ''{}'') (\<lambda>j. js ''undefined'') (\<lambda>ls. True)
        (Resolved (JObj [(js ''success'', JBool True), (js ''results'', JObj [])]))
        \<lparr>localStorage = [js ''uploadedFile'' \<mapsto> js ''{}'', js ''fileContent'' \<mapsto> js ''>X''],
         location_hash = js ''models'', timers = [], requests = [], notification = None,
         selectedModels = [js ''random-forest''], isProcessing = True,
         backendStatus = js ''connected'', uploadedFile = JObj [],
         fileContent = Some (js ''>X'')\<rparr>)
     (js ''predictionResults'') = Some (js ''{}'')"
proof -
  let ?up = "\<lparr>localStorage = [js ''predictionResults'' \<mapsto> js ''old''],
         location_hash = js ''upload'', timers = [], requests = [], notification = None,
         uploadedFile_up = Some \<lparr>name = js ''a.fasta'', size' = 7, type' = js ''text/plain'',
                                 contents = Some (js ''>X'' @ [0x0A] @ js ''ACGT'')\<rparr>,
         rawSequence = []\<rparr>"
  let ?st = "\<lparr>localStorage = [js ''uploadedFile'' \<mapsto> js ''{}'', js ''fileContent'' \<mapsto> js ''>X''],
         location_hash = js ''models'', timers = [], requests = [], notification = None,
         selectedModels = [js ''random-forest''], isProcessing = True,
         backendStatus = js ''connected'', uploadedFile = JObj [],
         fileContent = Some (js ''>X'')\<rparr>"
  let ?out = "Resolved (JObj [(js ''success'', JBool True), (js ''results'', JObj [])])"
  have a: "localStorage (proceedToModels (\<lambda>j. js ''{}'') (\<lambda>ls. True) ?up) (js ''fileContent'')
           = Some (js ''>X'' @ [0x0A] @ js ''ACGT'')"
    by (simp add: proceedToModels_def setItem_def)
  have b: "localStorage (runPrediction_settled (\<lambda>j. js ''{}'') (\<lambda>j. js ''undefined'') (\<lambda>ls. True)
              ?out ?st) (js ''predictionResults'') = Some (js ''{}'')"
    by (simp add: runPrediction_settled_def setItem_def showNotification_def Let_def js_def)
  have c: "localStorage ?up (js ''predictionResults'') = Some (js ''old'')" by simp
  have d: "localStorage ?st (js ''fileContent'') = Some (js ''>X'')" by simp
  from slots_independent[of "\<lambda>j. js ''{}''" "\<lambda>ls. True" ?up "\<lambda>j. js ''undefined''" "\<lambda>ls. True" ?out ?st]
  have "localStorage (proceedToModels (\<lambda>j. js ''{}'') (\<lambda>ls. True) ?up) (js ''predictionResults'')
          = localStorage ?up (js ''predictionResults'')"
    and "localStorage (runPrediction_settled (\<lambda>j. js ''{}'') (\<lambda>j. js ''undefined'') (\<lambda>ls. True)
              ?out ?st) (js ''fileContent'') = localStorage ?st (js ''fileContent'')"
    by blast+
  with a b c d show ?thesis by simp
qed

end
